theory Spec2Isabelle
  imports Complex_Main
begin

section \<open>Attrition Prediction API: a shallow embedding of main.py\<close>

text \<open>
  The development follows \<^verbatim>\<open>main.py\<close>. The FastAPI handlers are modelled as
  functions of the two module globals they read (\<^verbatim>\<open>pipeline\<close>, \<^verbatim>\<open>model_loaded\<close>);
  a raised \<^verbatim>\<open>HTTPException\<close> is the left summand of the result. The pipeline is an
  external object: it is a parameter, a record of the methods the handlers call.
  Every call of a pipeline method is logged, so that "the predictor is not invoked"
  and "no retry" are statements about the log. The \<^verbatim>\<open>print\<close> calls are left out.
\<close>

subsection \<open>Python values\<close>

text \<open>
  A Python float is an IEEE-754 double: a finite value (the real number it denotes),
  an infinity, or NaN. The comparison \<^verbatim>\<open>>=\<close> is exact on finite doubles and false
  whenever an operand is NaN.
\<close>

datatype pyfloat = Fin real | PosInf | NegInf | NaN

fun float_ge :: "pyfloat \<Rightarrow> pyfloat \<Rightarrow> bool" where
  "float_ge NaN y = False"
| "float_ge x NaN = False"
| "float_ge PosInf y = True"
| "float_ge x NegInf = True"
| "float_ge NegInf y = False"
| "float_ge x PosInf = False"
| "float_ge (Fin x) (Fin y) = (y \<le> x)"

fun float_lt :: "pyfloat \<Rightarrow> pyfloat \<Rightarrow> bool" where
  "float_lt NaN y = False"
| "float_lt x NaN = False"
| "float_lt PosInf y = False"
| "float_lt x NegInf = False"
| "float_lt NegInf y = True"
| "float_lt x PosInf = True"
| "float_lt (Fin x) (Fin y) = (x < y)"

text \<open>
  The float literals of the source. \<^verbatim>\<open>0.8\<close> and \<^verbatim>\<open>0.6\<close> are not binary fractions:
  each literal denotes the double nearest to it, a multiple of \<open>2\<^sup>-\<^sup>5\<^sup>3\<close>.
  \<^verbatim>\<open>0.5\<close> is exact.
\<close>

definition py_0_8 :: real where
  "py_0_8 = 3602879701896397 / 4503599627370496"

definition py_0_6 :: real where
  "py_0_6 = 5404319552844595 / 9007199254740992"

definition py_0_5 :: real where
  "py_0_5 = 1 / 2"

text \<open>An exception, by its class name and the text \<^verbatim>\<open>str(e)\<close>.\<close>

datatype py_exception = PyException (exc_class: string) (exc_str: string)

text \<open>The values held in dicts, DataFrame cells and JSON bodies.\<close>

datatype pyval =
    PInt int
  | PFloat pyfloat
  | PStr string
  | PBool bool
  | PList "pyval list"
  | PDict "(string \<times> pyval) list"

type_synonym pydict = "(string \<times> pyval) list"

text \<open>
  An element of the array returned by \<^verbatim>\<open>pipeline.predict\<close>. The source expects
  a \<^verbatim>\<open>numpy.int64\<close>; a float class and an object on which \<^verbatim>\<open>int()\<close> raises
  (with the given exception) are the other cases.
\<close>

datatype class_value =
    ClassInt int
  | ClassFloat pyfloat
  | ClassOther py_exception

text \<open>\<^verbatim>\<open>int(pred)\<close>: a float is truncated towards zero; NaN and infinities raise.\<close>

fun py_int :: "class_value \<Rightarrow> py_exception + int" where
  "py_int (ClassInt i) = Inr i"
| "py_int (ClassFloat (Fin r)) = Inr (if 0 \<le> r then \<lfloor>r\<rfloor> else \<lceil>r\<rceil>)"
| "py_int (ClassFloat NaN) =
     Inl (PyException ''ValueError'' ''cannot convert float NaN to integer'')"
| "py_int (ClassFloat PosInf) =
     Inl (PyException ''OverflowError'' ''cannot convert float infinity to integer'')"
| "py_int (ClassFloat NegInf) =
     Inl (PyException ''OverflowError'' ''cannot convert float infinity to integer'')"
| "py_int (ClassOther e) = Inl e"

subsection \<open>The request and response models\<close>

record EmployeeInput =
  Age :: int
  Gender :: string
  MaritalStatus :: string
  Department :: string
  JobRole :: string
  JobLevel :: int
  JobSatisfaction :: int
  MonthlyIncome :: pyfloat
  DailyRate :: pyfloat
  HourlyRate :: pyfloat
  MonthlyRate :: pyfloat
  YearsAtCompany :: int
  YearsInCurrentRole :: int
  YearsSinceLastPromotion :: int
  TotalWorkingYears :: int
  YearsWithCurrManager :: int
  NumCompaniesWorked :: int
  PerformanceRating :: int
  PercentSalaryHike :: pyfloat
  TrainingTimesLastYear :: int
  OverTime :: string
  BusinessTravel :: string
  DistanceFromHome :: int
  WorkLifeBalance :: int
  EnvironmentSatisfaction :: int
  RelationshipSatisfaction :: int
  Education :: int
  EducationField :: string
  StockOptionLevel :: int

text \<open>\<^verbatim>\<open>data.dict()\<close>: the fields in declaration order.\<close>

definition employee_dict :: "EmployeeInput \<Rightarrow> pydict" where
  "employee_dict d =
    [(''Age'', PInt (Age d)),
     (''Gender'', PStr (Gender d)),
     (''MaritalStatus'', PStr (MaritalStatus d)),
     (''Department'', PStr (Department d)),
     (''JobRole'', PStr (JobRole d)),
     (''JobLevel'', PInt (JobLevel d)),
     (''JobSatisfaction'', PInt (JobSatisfaction d)),
     (''MonthlyIncome'', PFloat (MonthlyIncome d)),
     (''DailyRate'', PFloat (DailyRate d)),
     (''HourlyRate'', PFloat (HourlyRate d)),
     (''MonthlyRate'', PFloat (MonthlyRate d)),
     (''YearsAtCompany'', PInt (YearsAtCompany d)),
     (''YearsInCurrentRole'', PInt (YearsInCurrentRole d)),
     (''YearsSinceLastPromotion'', PInt (YearsSinceLastPromotion d)),
     (''TotalWorkingYears'', PInt (TotalWorkingYears d)),
     (''YearsWithCurrManager'', PInt (YearsWithCurrManager d)),
     (''NumCompaniesWorked'', PInt (NumCompaniesWorked d)),
     (''PerformanceRating'', PInt (PerformanceRating d)),
     (''PercentSalaryHike'', PFloat (PercentSalaryHike d)),
     (''TrainingTimesLastYear'', PInt (TrainingTimesLastYear d)),
     (''OverTime'', PStr (OverTime d)),
     (''BusinessTravel'', PStr (BusinessTravel d)),
     (''DistanceFromHome'', PInt (DistanceFromHome d)),
     (''WorkLifeBalance'', PInt (WorkLifeBalance d)),
     (''EnvironmentSatisfaction'', PInt (EnvironmentSatisfaction d)),
     (''RelationshipSatisfaction'', PInt (RelationshipSatisfaction d)),
     (''Education'', PInt (Education d)),
     (''EducationField'', PStr (EducationField d)),
     (''StockOptionLevel'', PInt (StockOptionLevel d))]"

record PredictionResponse =
  prediction :: string
  probability :: pyfloat
  confidence :: string

record HealthResponse =
  status :: string
  health_model_loaded :: bool
  message :: string

datatype http_exception = HTTPException (status_code: nat) (detail: string)

subsection \<open>The pipeline and the module globals\<close>

text \<open>
  The pipeline object: \<^verbatim>\<open>predict\<close> returns an array of classes or raises;
  \<^verbatim>\<open>predict_proba\<close> may be absent (\<open>None\<close>: the attribute lookup raises
  \<^verbatim>\<open>AttributeError\<close>), and otherwise returns one row of probabilities per input
  row or raises. \<open>class_name\<close> is \<^verbatim>\<open>type(pipeline).__name__\<close>, which the
  message of that \<^verbatim>\<open>AttributeError\<close> quotes; \<open>type_name\<close> is \<^verbatim>\<open>str(type(pipeline))\<close>.
\<close>

record predictor =
  class_name :: string
  type_name :: string
  predict :: "pydict \<Rightarrow> py_exception + class_value list"
  predict_proba :: "(pydict \<Rightarrow> py_exception + pyfloat list list) option"

datatype call = CallPredict pydict | CallPredictProba pydict

record server_state =
  pipeline :: "predictor option"
  model_loaded :: bool

subsection \<open>The prediction endpoint\<close>

text \<open>
  The body of the inner \<^verbatim>\<open>try\<close>:
  \<^verbatim>\<open>pred_proba = pipeline.predict_proba(input_df)[0]\<close>, then
  \<^verbatim>\<open>float(pred_proba[1]) if len(pred_proba) > 1 else float(pred_proba[0])\<close>.
\<close>

definition proba_step :: "predictor \<Rightarrow> pydict \<Rightarrow> (py_exception + pyfloat) \<times> call list" where
  "proba_step p row =
    (case predict_proba p of
       None \<Rightarrow>
         (Inl (PyException ''AttributeError''
                ([CHR 0x27] @ class_name p @ [CHR 0x27] @ '' object has no attribute ''
                 @ [CHR 0x27] @ ''predict_proba'' @ [CHR 0x27])), [])
     | Some f \<Rightarrow>
         (case f row of
            Inl e \<Rightarrow> (Inl e, [CallPredictProba row])
          | Inr rows \<Rightarrow>
              (case rows of
                 [] \<Rightarrow>
                   (Inl (PyException ''IndexError''
                          ''index 0 is out of bounds for axis 0 with size 0''),
                    [CallPredictProba row])
               | pred_proba # _ \<Rightarrow>
                   (if length pred_proba > 1 then Inr (pred_proba ! 1)
                    else (case pred_proba of
                            [] \<Rightarrow> Inl (PyException ''IndexError''
                                   ''index 0 is out of bounds for axis 0 with size 0'')
                          | x # _ \<Rightarrow> Inr x),
                    [CallPredictProba row]))))"

text \<open>The inner \<^verbatim>\<open>try ... except Exception\<close>: any exception gives the default 0.5.\<close>

definition get_probability :: "predictor \<Rightarrow> pydict \<Rightarrow> pyfloat \<times> call list" where
  "get_probability p row =
    (case proba_step p row of
       (Inl proba_error, cs) \<Rightarrow> (Fin py_0_5, cs)
     | (Inr prob, cs) \<Rightarrow> (prob, cs))"

text \<open>The \<^verbatim>\<open>if / elif / else\<close> that sets \<^verbatim>\<open>confidence\<close>.\<close>

definition confidence_of :: "pyfloat \<Rightarrow> string" where
  "confidence_of prob =
    (if float_ge prob (Fin py_0_8) then ''High''
     else if float_ge prob (Fin py_0_6) then ''Medium''
     else ''Low'')"

text \<open>The body of the outer \<^verbatim>\<open>try\<close> of \<^verbatim>\<open>predict_attrition\<close>.\<close>

definition predict_body ::
  "predictor option \<Rightarrow> pydict \<Rightarrow> (py_exception + PredictionResponse) \<times> call list" where
  "predict_body pl row =
    (case pl of
       None \<Rightarrow>
         (Inl (PyException ''AttributeError''
                ([CHR 0x27] @ ''NoneType'' @ [CHR 0x27] @ '' object has no attribute ''
                 @ [CHR 0x27] @ ''predict'' @ [CHR 0x27])), [])
     | Some p \<Rightarrow>
         (case predict p row of
            Inl e \<Rightarrow> (Inl e, [CallPredict row])
          | Inr preds \<Rightarrow>
              (case preds of
                 [] \<Rightarrow>
                   (Inl (PyException ''IndexError''
                          ''index 0 is out of bounds for axis 0 with size 0''),
                    [CallPredict row])
               | pred # _ \<Rightarrow>
                   (case get_probability p row of
                      (prob, cs) \<Rightarrow>
                        (case py_int pred of
                           Inl e \<Rightarrow> (Inl e, CallPredict row # cs)
                         | Inr pred_int \<Rightarrow>
                             (Inr \<lparr>prediction = (if pred_int = 1 then ''Yes'' else ''No''),
                                   probability = prob,
                                   confidence = confidence_of prob\<rparr>,
                              CallPredict row # cs))))))"

definition predict_attrition ::
  "server_state \<Rightarrow> EmployeeInput \<Rightarrow> (http_exception + PredictionResponse) \<times> call list" where
  "predict_attrition st data =
    (if \<not> model_loaded st then
       (Inl (HTTPException 503 ''Model not loaded. Please check /health endpoint.''), [])
     else
       (case predict_body (pipeline st) (employee_dict data) of
          (Inl e, cs) \<Rightarrow> (Inl (HTTPException 500 (''Prediction error: '' @ exc_str e)), cs)
        | (Inr r, cs) \<Rightarrow> (Inr r, cs)))"

subsection \<open>Loading the model\<close>

text \<open>
  What \<^verbatim>\<open>load_model\<close> sees of the outside: \<^verbatim>\<open>os.path.exists\<close> and
  \<^verbatim>\<open>joblib.load\<close>, which returns the deserialised object or raises.
\<close>

record environment =
  path_exists :: "string \<Rightarrow> bool"
  joblib_load :: "string \<Rightarrow> py_exception + predictor"

definition pipeline_path :: string where
  "pipeline_path = ''xgb_attrition_pipeline.joblib''"

text \<open>
  \<^verbatim>\<open>load_model\<close> returns the value it leaves in the global \<^verbatim>\<open>pipeline\<close>
  (initially \<^verbatim>\<open>None\<close>) and its return value. Both exceptions are caught.
\<close>

definition load_model :: "environment \<Rightarrow> predictor option \<times> bool" where
  "load_model env =
    (if \<not> path_exists env pipeline_path then (None, False)
     else (case joblib_load env pipeline_path of
             Inl e \<Rightarrow> (None, False)
           | Inr p \<Rightarrow> (Some p, True)))"

text \<open>The module level: \<^verbatim>\<open>model_loaded = load_model()\<close>.\<close>

definition startup :: "environment \<Rightarrow> server_state" where
  "startup env =
    (case load_model env of (pl, ok) \<Rightarrow> \<lparr>pipeline = pl, model_loaded = ok\<rparr>)"

subsection \<open>The other endpoints\<close>

definition health_check :: "server_state \<Rightarrow> HealthResponse" where
  "health_check st =
    \<lparr>status = (if model_loaded st then ''healthy'' else ''unhealthy''),
     health_model_loaded = model_loaded st,
     message = (if model_loaded st then ''Model loaded successfully''
                else ''Model failed to load'')\<rparr>"

definition high_risk_employee :: pydict where
  "high_risk_employee =
    [(''Age'', PInt 25),
     (''Gender'', PStr ''Male''),
     (''MaritalStatus'', PStr ''Single''),
     (''Department'', PStr ''Sales''),
     (''JobRole'', PStr ''Sales Representative''),
     (''JobLevel'', PInt 1),
     (''JobSatisfaction'', PInt 2),
     (''MonthlyIncome'', PFloat (Fin 2000)),
     (''DailyRate'', PFloat (Fin 100)),
     (''HourlyRate'', PFloat (Fin 12)),
     (''MonthlyRate'', PFloat (Fin 2000)),
     (''YearsAtCompany'', PInt 1),
     (''YearsInCurrentRole'', PInt 1),
     (''YearsSinceLastPromotion'', PInt 1),
     (''TotalWorkingYears'', PInt 2),
     (''YearsWithCurrManager'', PInt 1),
     (''NumCompaniesWorked'', PInt 1),
     (''PerformanceRating'', PInt 2),
     (''PercentSalaryHike'', PFloat (Fin 5)),
     (''TrainingTimesLastYear'', PInt 1),
     (''OverTime'', PStr ''Yes''),
     (''BusinessTravel'', PStr ''Travel_Frequently''),
     (''DistanceFromHome'', PInt 20),
     (''WorkLifeBalance'', PInt 2),
     (''EnvironmentSatisfaction'', PInt 2),
     (''RelationshipSatisfaction'', PInt 2),
     (''Education'', PInt 2),
     (''EducationField'', PStr ''Life Sciences''),
     (''StockOptionLevel'', PInt 0)]"

definition low_risk_employee :: pydict where
  "low_risk_employee =
    [(''Age'', PInt 45),
     (''Gender'', PStr ''Female''),
     (''MaritalStatus'', PStr ''Married''),
     (''Department'', PStr ''Research & Development''),
     (''JobRole'', PStr ''Research Scientist''),
     (''JobLevel'', PInt 4),
     (''JobSatisfaction'', PInt 4),
     (''MonthlyIncome'', PFloat (Fin 8000)),
     (''DailyRate'', PFloat (Fin 400)),
     (''HourlyRate'', PFloat (Fin 50)),
     (''MonthlyRate'', PFloat (Fin 8000)),
     (''YearsAtCompany'', PInt 10),
     (''YearsInCurrentRole'', PInt 5),
     (''YearsSinceLastPromotion'', PInt 2),
     (''TotalWorkingYears'', PInt 15),
     (''YearsWithCurrManager'', PInt 3),
     (''NumCompaniesWorked'', PInt 2),
     (''PerformanceRating'', PInt 4),
     (''PercentSalaryHike'', PFloat (Fin 15)),
     (''TrainingTimesLastYear'', PInt 3),
     (''OverTime'', PStr ''No''),
     (''BusinessTravel'', PStr ''Travel_Rarely''),
     (''DistanceFromHome'', PInt 5),
     (''WorkLifeBalance'', PInt 4),
     (''EnvironmentSatisfaction'', PInt 4),
     (''RelationshipSatisfaction'', PInt 4),
     (''Education'', PInt 4),
     (''EducationField'', PStr ''Life Sciences''),
     (''StockOptionLevel'', PInt 2)]"

definition get_sample_data :: pyval where
  "get_sample_data =
    PDict [(''high_risk_employee'', PDict high_risk_employee),
           (''low_risk_employee'', PDict low_risk_employee)]"

text \<open>The literal \<^verbatim>\<open>sample_data\<close> inside \<^verbatim>\<open>test_prediction\<close>.\<close>

definition test_sample_data :: pydict where
  "test_sample_data =
    [(''Age'', PInt 25),
     (''Gender'', PStr ''Male''),
     (''MaritalStatus'', PStr ''Single''),
     (''Department'', PStr ''Sales''),
     (''JobRole'', PStr ''Sales Representative''),
     (''JobLevel'', PInt 1),
     (''JobSatisfaction'', PInt 2),
     (''MonthlyIncome'', PFloat (Fin 2000)),
     (''DailyRate'', PFloat (Fin 100)),
     (''HourlyRate'', PFloat (Fin 12)),
     (''MonthlyRate'', PFloat (Fin 2000)),
     (''YearsAtCompany'', PInt 1),
     (''YearsInCurrentRole'', PInt 1),
     (''YearsSinceLastPromotion'', PInt 1),
     (''TotalWorkingYears'', PInt 2),
     (''YearsWithCurrManager'', PInt 1),
     (''NumCompaniesWorked'', PInt 1),
     (''PerformanceRating'', PInt 2),
     (''PercentSalaryHike'', PFloat (Fin 5)),
     (''TrainingTimesLastYear'', PInt 1),
     (''OverTime'', PStr ''Yes''),
     (''BusinessTravel'', PStr ''Travel_Frequently''),
     (''DistanceFromHome'', PInt 20),
     (''WorkLifeBalance'', PInt 2),
     (''EnvironmentSatisfaction'', PInt 2),
     (''RelationshipSatisfaction'', PInt 2),
     (''Education'', PInt 2),
     (''EducationField'', PStr ''Life Sciences''),
     (''StockOptionLevel'', PInt 0)]"

text \<open>
  The body of the \<^verbatim>\<open>try\<close> of \<^verbatim>\<open>test_prediction\<close>. Here no inner \<^verbatim>\<open>try\<close>
  guards \<^verbatim>\<open>predict_proba\<close>. \<^verbatim>\<open>hasattr(pipeline, 'predict_proba')\<close> is evaluated
  on the path where the attribute has just been called.
\<close>

definition test_body :: "predictor option \<Rightarrow> (py_exception + pyval) \<times> call list" where
  "test_body pl =
    (case pl of
       None \<Rightarrow>
         (Inl (PyException ''AttributeError''
                ([CHR 0x27] @ ''NoneType'' @ [CHR 0x27] @ '' object has no attribute ''
                 @ [CHR 0x27] @ ''predict'' @ [CHR 0x27])), [])
     | Some p \<Rightarrow>
         (case predict p test_sample_data of
            Inl e \<Rightarrow> (Inl e, [CallPredict test_sample_data])
          | Inr preds \<Rightarrow>
              (case preds of
                 [] \<Rightarrow>
                   (Inl (PyException ''IndexError''
                          ''index 0 is out of bounds for axis 0 with size 0''),
                    [CallPredict test_sample_data])
               | pred # _ \<Rightarrow>
                   (case predict_proba p of
                      None \<Rightarrow>
                        (Inl (PyException ''AttributeError''
                               ([CHR 0x27] @ class_name p @ [CHR 0x27]
                                @ '' object has no attribute ''
                                @ [CHR 0x27] @ ''predict_proba'' @ [CHR 0x27])),
                         [CallPredict test_sample_data])
                    | Some f \<Rightarrow>
                        (case f test_sample_data of
                           Inl e \<Rightarrow>
                             (Inl e, [CallPredict test_sample_data,
                                      CallPredictProba test_sample_data])
                         | Inr rows \<Rightarrow>
                             (case rows of
                                [] \<Rightarrow>
                                  (Inl (PyException ''IndexError''
                                         ''index 0 is out of bounds for axis 0 with size 0''),
                                   [CallPredict test_sample_data,
                                    CallPredictProba test_sample_data])
                              | pred_proba # _ \<Rightarrow>
                                  (case py_int pred of
                                     Inl e \<Rightarrow>
                                       (Inl e, [CallPredict test_sample_data,
                                                CallPredictProba test_sample_data])
                                   | Inr pred_int \<Rightarrow>
                                       (Inr (PDict
                                          [(''test_data'', PDict test_sample_data),
                                           (''prediction'', PInt pred_int),
                                           (''probabilities'', PList (map PFloat pred_proba)),
                                           (''model_info'', PDict
                                              [(''pipeline_type'', PStr (type_name p)),
                                               (''has_predict_proba'', PBool True)])]),
                                        [CallPredict test_sample_data,
                                         CallPredictProba test_sample_data]))))))))"

text \<open>
  \<^verbatim>\<open>test_prediction\<close>. The text \<^verbatim>\<open>str(e.__traceback__)\<close> names a memory address;
  it is the parameter \<open>tb\<close>.
\<close>

definition test_prediction ::
  "(py_exception \<Rightarrow> string) \<Rightarrow> server_state \<Rightarrow> (http_exception + pyval) \<times> call list" where
  "test_prediction tb st =
    (if \<not> model_loaded st then (Inl (HTTPException 503 ''Model not loaded''), [])
     else
       (case test_body (pipeline st) of
          (Inl e, cs) \<Rightarrow>
            (Inr (PDict [(''error'', PStr (exc_str e)), (''traceback'', PStr (tb e))]), cs)
        | (Inr body, cs) \<Rightarrow> (Inr body, cs)))"

definition root :: "server_state \<Rightarrow> pyval" where
  "root st =
    PDict [(''message'', PStr ''Attrition Prediction API is running!''),
           (''endpoints'', PDict
              [(''health'', PStr ''/health - Check API and model status''),
               (''sample_data'', PStr ''/sample-data - Get sample employee data for testing''),
               (''test_prediction'', PStr ''/test-prediction - Test model with sample data''),
               (''predict'', PStr ''/predict - Make attrition predictions''),
               (''docs'', PStr ''/docs - Interactive API documentation'')]),
           (''model_loaded'', PBool (model_loaded st))]"

subsection \<open>Serving requests\<close>

text \<open>
  The routes of the application. No handler declares a global, so none can rebind
  \<^verbatim>\<open>pipeline\<close> or \<^verbatim>\<open>model_loaded\<close>: each returns the state it was given.
\<close>

datatype request =
    GetRoot
  | GetHealth
  | GetSampleData
  | PostPredict EmployeeInput
  | PostTestPrediction

datatype response_body =
    JsonBody pyval
  | HealthBody HealthResponse
  | PredictionBody PredictionResponse

type_synonym response = "(http_exception + response_body) \<times> call list"

fun handle ::
  "(py_exception \<Rightarrow> string) \<Rightarrow> server_state \<Rightarrow> request \<Rightarrow> response \<times> server_state" where
  "handle tb st GetRoot = ((Inr (JsonBody (root st)), []), st)"
| "handle tb st GetHealth = ((Inr (HealthBody (health_check st)), []), st)"
| "handle tb st GetSampleData = ((Inr (JsonBody get_sample_data), []), st)"
| "handle tb st (PostPredict data) =
     (case predict_attrition st data of
        (Inl err, cs) \<Rightarrow> ((Inl err, cs), st)
      | (Inr r, cs) \<Rightarrow> ((Inr (PredictionBody r), cs), st))"
| "handle tb st PostTestPrediction =
     (case test_prediction tb st of
        (Inl err, cs) \<Rightarrow> ((Inl err, cs), st)
      | (Inr body, cs) \<Rightarrow> ((Inr (JsonBody body), cs), st))"

fun serve ::
  "(py_exception \<Rightarrow> string) \<Rightarrow> server_state \<Rightarrow> request list
   \<Rightarrow> response list \<times> server_state" where
  "serve tb st [] = ([], st)"
| "serve tb st (req # reqs) =
     (case handle tb st req of
        (resp, st') \<Rightarrow>
          (case serve tb st' reqs of (resps, st'') \<Rightarrow> (resp # resps, st'')))"

subsection \<open>Concrete pipelines and requests\<close>

text \<open>The high-risk request body of \<^verbatim>\<open>demo_api.py\<close>, as \<^verbatim>\<open>EmployeeInput\<close> parses it.\<close>

definition high_risk_input :: EmployeeInput where
  "high_risk_input =
    \<lparr>Age = 25,
     Gender = ''Male'',
     MaritalStatus = ''Single'',
     Department = ''Sales'',
     JobRole = ''Sales Representative'',
     JobLevel = 1,
     JobSatisfaction = 2,
     MonthlyIncome = Fin 2000,
     DailyRate = Fin 100,
     HourlyRate = Fin 12,
     MonthlyRate = Fin 2000,
     YearsAtCompany = 1,
     YearsInCurrentRole = 1,
     YearsSinceLastPromotion = 1,
     TotalWorkingYears = 2,
     YearsWithCurrManager = 1,
     NumCompaniesWorked = 1,
     PerformanceRating = 2,
     PercentSalaryHike = Fin 5,
     TrainingTimesLastYear = 1,
     OverTime = ''Yes'',
     BusinessTravel = ''Travel_Frequently'',
     DistanceFromHome = 20,
     WorkLifeBalance = 2,
     EnvironmentSatisfaction = 2,
     RelationshipSatisfaction = 2,
     Education = 2,
     EducationField = ''Life Sciences'',
     StockOptionLevel = 0\<rparr>"

text \<open>
  Stand-ins for the pipeline: \<open>const_pipeline c v\<close> always predicts class \<open>c\<close>
  with the probability row \<open>v\<close>.
\<close>

definition const_pipeline :: "class_value \<Rightarrow> pyfloat list \<Rightarrow> predictor" where
  "const_pipeline c v =
    \<lparr>class_name = ''ConstPipeline'',
     type_name = ''<class ConstPipeline>'',
     predict = (\<lambda>row. Inr [c]),
     predict_proba = Some (\<lambda>row. Inr [v])\<rparr>"

text \<open>A pipeline without \<^verbatim>\<open>predict_proba\<close>.\<close>

definition no_proba_pipeline :: "class_value \<Rightarrow> predictor" where
  "no_proba_pipeline c =
    \<lparr>class_name = ''NoProba'',
     type_name = ''<class NoProba>'',
     predict = (\<lambda>row. Inr [c]),
     predict_proba = None\<rparr>"

text \<open>A pipeline whose \<^verbatim>\<open>predict_proba\<close> raises.\<close>

definition failing_proba_pipeline :: "class_value \<Rightarrow> predictor" where
  "failing_proba_pipeline c =
    \<lparr>class_name = ''FailingProba'',
     type_name = ''<class FailingProba>'',
     predict = (\<lambda>row. Inr [c]),
     predict_proba = Some (\<lambda>row. Inl (PyException ''ValueError'' ''feature names mismatch''))\<rparr>"

text \<open>A pipeline whose \<^verbatim>\<open>predict\<close> raises.\<close>

definition failing_pipeline :: predictor where
  "failing_pipeline =
    \<lparr>class_name = ''Failing'',
     type_name = ''<class Failing>'',
     predict = (\<lambda>row. Inl (PyException ''ValueError'' ''feature names mismatch'')),
     predict_proba = Some (\<lambda>row. Inr [[Fin (1 / 4), Fin (3 / 4)]])\<rparr>"

definition loaded :: "predictor \<Rightarrow> server_state" where
  "loaded p = \<lparr>pipeline = Some p, model_loaded = True\<rparr>"

definition not_loaded :: server_state where
  "not_loaded = \<lparr>pipeline = None, model_loaded = False\<rparr>"

subsection \<open>The contract of a probability estimator\<close>

text \<open>
  The handlers accept any pipeline. \<open>returns_probabilities\<close> is a condition on that
  parameter: every entry that \<^verbatim>\<open>predict_proba\<close> returns for the row is a finite float
  between 0 and 1, which is what a probability vector is.
\<close>

definition unit_interval :: "pyfloat \<Rightarrow> bool" where
  "unit_interval x = (case x of Fin r \<Rightarrow> 0 \<le> r \<and> r \<le> 1 | _ \<Rightarrow> False)"

definition returns_probabilities :: "predictor \<Rightarrow> pydict \<Rightarrow> bool" where
  "returns_probabilities p row =
    (case predict_proba p of
       None \<Rightarrow> True
     | Some f \<Rightarrow>
         (case f row of
            Inl e \<Rightarrow> True
          | Inr rows \<Rightarrow> list_all (list_all unit_interval) rows))"


section \<open>Properties\<close>

subsection \<open>Auxiliary facts about the prediction endpoint\<close>

lemma proba_step_calls:
  "snd (proba_step p row) = [] \<or> snd (proba_step p row) = [CallPredictProba row]"
  by (auto simp: proba_step_def split: option.splits sum.splits list.splits)

lemma get_probability_calls:
  "snd (get_probability p row) = snd (proba_step p row)"
  by (auto simp: get_probability_def split: prod.splits sum.splits)

lemma get_probability_value:
  "fst (get_probability p row) =
     (case fst (proba_step p row) of Inl e \<Rightarrow> Fin py_0_5 | Inr v \<Rightarrow> v)"
  by (auto simp: get_probability_def split: prod.splits sum.splits)

lemma predict_body_success:
  assumes "fst (predict_body pl row) = Inr r"
  shows "\<exists>p c cs k. pl = Some p \<and> predict p row = Inr (c # cs) \<and> py_int c = Inr k
           \<and> r = \<lparr>prediction = (if k = 1 then ''Yes'' else ''No''),
                   probability = fst (get_probability p row),
                   confidence = confidence_of (fst (get_probability p row))\<rparr>"
proof (cases pl)
  case None
  with assms show ?thesis by (simp add: predict_body_def)
next
  case (Some p)
  show ?thesis
  proof (cases "predict p row")
    case (Inl e)
    with assms Some show ?thesis by (simp add: predict_body_def)
  next
    case (Inr preds)
    show ?thesis
    proof (cases preds)
      case Nil
      with assms Some Inr show ?thesis by (simp add: predict_body_def)
    next
      case (Cons c cs)
      show ?thesis
      proof (cases "py_int c")
        case (Inl e)
        with assms Some Inr Cons show ?thesis
          by (simp add: predict_body_def split: prod.splits)
      next
        case k: (Inr k)
        with assms Some Inr Cons have
          "r = \<lparr>prediction = (if k = 1 then ''Yes'' else ''No''),
                   probability = fst (get_probability p row),
                   confidence = confidence_of (fst (get_probability p row))\<rparr>"
          by (auto simp: predict_body_def split: prod.splits)
        with Some Inr Cons k show ?thesis by blast
      qed
    qed
  qed
qed

lemma predict_attrition_success:
  assumes "fst (predict_attrition st data) = Inr r"
  shows "model_loaded st \<and> fst (predict_body (pipeline st) (employee_dict data)) = Inr r"
  using assms
  by (auto simp: predict_attrition_def split: if_splits prod.splits sum.splits)

lemma confidence_of_Fin:
  "confidence_of (Fin x) =
     (if py_0_8 \<le> x then ''High'' else if py_0_6 \<le> x then ''Medium'' else ''Low'')"
  by (simp add: confidence_of_def)

lemma py_0_6_less_py_0_8: "py_0_6 < py_0_8"
  by (simp add: py_0_6_def py_0_8_def)


lemma predict_attrition_result:
  assumes "fst (predict_attrition st data) = Inr r"
  shows "\<exists>p c cs k. model_loaded st \<and> pipeline st = Some p
           \<and> predict p (employee_dict data) = Inr (c # cs) \<and> py_int c = Inr k
           \<and> r = \<lparr>prediction = (if k = 1 then ''Yes'' else ''No''),
                   probability = fst (get_probability p (employee_dict data)),
                   confidence = confidence_of (fst (get_probability p (employee_dict data)))\<rparr>"
proof -
  from assms have l: "model_loaded st"
    and b: "fst (predict_body (pipeline st) (employee_dict data)) = Inr r"
    using predict_attrition_success by blast+
  from predict_body_success [OF b] l show ?thesis by blast
qed

lemma predict_attrition_confidence:
  assumes "fst (predict_attrition st data) = Inr r"
  shows "confidence r = confidence_of (probability r)"
  using predict_attrition_result [OF assms] by auto


lemma predict_attrition_calls:
  "snd (predict_attrition st data) = []
   \<or> snd (predict_attrition st data) = [CallPredict (employee_dict data)]
   \<or> snd (predict_attrition st data)
       = [CallPredict (employee_dict data), CallPredictProba (employee_dict data)]"
proof (cases "model_loaded st")
  case False
  then show ?thesis by (simp add: predict_attrition_def)
next
  case True
  have g: "snd (get_probability p (employee_dict data)) = []
           \<or> snd (get_probability p (employee_dict data))
               = [CallPredictProba (employee_dict data)]" for p
    using proba_step_calls [of p "employee_dict data"] by (simp add: get_probability_calls)
  have "snd (predict_body pl (employee_dict data)) = []
        \<or> snd (predict_body pl (employee_dict data)) = [CallPredict (employee_dict data)]
        \<or> snd (predict_body pl (employee_dict data))
            = [CallPredict (employee_dict data), CallPredictProba (employee_dict data)]" for pl
  proof (cases pl)
    case None
    then show ?thesis by (simp add: predict_body_def)
  next
    case (Some p)
    show ?thesis
    proof (cases "predict p (employee_dict data)")
      case (Inl e)
      with Some show ?thesis by (simp add: predict_body_def)
    next
      case (Inr preds)
      with Some g [of p] show ?thesis
        by (cases preds) (auto simp: predict_body_def split: prod.splits sum.splits)
    qed
  qed
  from this [of "pipeline st"] True show ?thesis
    by (auto simp: predict_attrition_def split: prod.splits sum.splits)
qed

text \<open>
  The two thresholds are the doubles nearest to the decimals: multiples of \<open>2\<^sup>-\<^sup>5\<^sup>3\<close>
  within half a unit in the last place of \<open>4/5\<close> and \<open>3/5\<close>.
\<close>

lemma py_literals_nearest:
  "py_0_8 = 7205759403792794 / 2 ^ 53" "\<bar>py_0_8 - 4 / 5\<bar> \<le> 1 / 2 ^ 54"
  "py_0_6 = 5404319552844595 / 2 ^ 53" "\<bar>py_0_6 - 3 / 5\<bar> \<le> 1 / 2 ^ 54"
  by (simp_all add: py_0_8_def py_0_6_def)

text \<open>Floats that are not finite: NaN fails both comparisons.\<close>

lemma confidence_of_nonfinite:
  "confidence_of NaN = ''Low''" "confidence_of PosInf = ''High''"
  "confidence_of NegInf = ''Low''"
  by (simp_all add: confidence_of_def)

subsection \<open>Auxiliary facts about serving\<close>

lemma handle_state: "snd (handle tb st req) = st"
  by (cases req) (simp_all split: prod.splits sum.splits)

lemma serve_state: "snd (serve tb st reqs) = st"
proof (induction reqs arbitrary: st)
  case Nil
  show ?case by simp
next
  case (Cons req reqs)
  obtain resp st' where h: "handle tb st req = (resp, st')"
    by (cases "handle tb st req")
  with handle_state [of tb st req] have e: "st' = st" by simp
  obtain resps st'' where s: "serve tb st reqs = (resps, st'')"
    by (cases "serve tb st reqs")
  with Cons.IH [of st] have "st'' = st" by simp
  with h e s show ?case by simp
qed

subsection \<open>Confidence tiers\<close>

text \<open>
  C1. Whenever \<^verbatim>\<open>/predict\<close> returns a response, its confidence is "High" if the
  probability is at least the float 0.8, "Medium" if it is at least the float 0.6 and
  below 0.8, and "Low" if it is below 0.6. A probability equal to 0.8 gives "High" and
  one equal to 0.6 gives "Medium". The comparisons are those of Python floats.
\<close>

theorem confidence_thresholds:
  assumes "fst (predict_attrition st data) = Inr r"
  shows "(float_ge (probability r) (Fin py_0_8) \<longrightarrow> confidence r = ''High'')
       \<and> (float_ge (probability r) (Fin py_0_6) \<and> float_lt (probability r) (Fin py_0_8)
            \<longrightarrow> confidence r = ''Medium'')
       \<and> (float_lt (probability r) (Fin py_0_6) \<longrightarrow> confidence r = ''Low'')
       \<and> (probability r = Fin py_0_8 \<longrightarrow> confidence r = ''High'')
       \<and> (probability r = Fin py_0_6 \<longrightarrow> confidence r = ''Medium'')"
proof -
  have c: "confidence r = confidence_of (probability r)"
    using assms by (rule predict_attrition_confidence)
  show ?thesis
  proof (cases "probability r")
    case (Fin x)
    then show ?thesis
      using c py_0_6_less_py_0_8 by (auto simp: confidence_of_Fin)
  qed (simp_all add: c confidence_of_def)
qed

theorem confidence_thresholds_witness:
  "fst (predict_attrition (loaded (const_pipeline (ClassInt 1) [Fin (1 / 4), Fin py_0_8]))
          high_risk_input)
     = Inr \<lparr>prediction = ''Yes'', probability = Fin py_0_8, confidence = ''High''\<rparr>
   \<and> confidence \<lparr>prediction = ''Yes'', probability = Fin py_0_8, confidence = ''High''\<rparr>
       = ''High''"
proof -
  have h: "fst (predict_attrition (loaded (const_pipeline (ClassInt 1) [Fin (1 / 4), Fin py_0_8]))
          high_risk_input)
     = Inr \<lparr>prediction = ''Yes'', probability = Fin py_0_8, confidence = ''High''\<rparr>"
    by (simp add: predict_attrition_def predict_body_def get_probability_def proba_step_def
        loaded_def const_pipeline_def confidence_of_def)
  from confidence_thresholds [OF h] h show ?thesis by simp
qed

subsection \<open>Choice of the probability\<close>

text \<open>
  C2, as stated, does not hold. A pipeline whose probability row has a single entry is
  answered with that entry: the vector is available, the value reported is neither its
  entry at index 1 (there is none) nor the default 0.5.
\<close>

theorem single_entry_vector_counterexample:
  "fst (predict_attrition (loaded (const_pipeline (ClassInt 1) [Fin (3 / 4)])) high_risk_input)
     = Inr \<lparr>prediction = ''Yes'', probability = Fin (3 / 4), confidence = ''Medium''\<rparr>
   \<and> predict_proba (const_pipeline (ClassInt 1) [Fin (3 / 4)]) \<noteq> None
   \<and> fst (proba_step (const_pipeline (ClassInt 1) [Fin (3 / 4)]) (employee_dict high_risk_input))
       = Inr (Fin (3 / 4))
   \<and> \<not> 1 < length [Fin (3 / 4)]
   \<and> Fin (3 / 4) \<noteq> Fin py_0_5"
  by (simp add: predict_attrition_def predict_body_def get_probability_def proba_step_def
      loaded_def const_pipeline_def confidence_of_def py_0_8_def py_0_6_def py_0_5_def)

text \<open>
  C2, amended. On a successful \<^verbatim>\<open>/predict\<close> call the probability reported is the entry
  at index 1 of the first probability row when that row has more than one entry, and its
  only entry when it has exactly one. It is the default 0.5 whenever obtaining the
  probability raises: \<^verbatim>\<open>predict_proba\<close> is missing, \<^verbatim>\<open>predict_proba\<close> raises, or it
  returns no row or an empty first row.
\<close>

theorem probability_selection:
  assumes "fst (predict_attrition st data) = Inr r" and "pipeline st = Some p"
  shows "(predict_proba p = None \<longrightarrow> probability r = Fin py_0_5)
       \<and> (\<forall>f e. predict_proba p = Some f \<and> f (employee_dict data) = Inl e
             \<longrightarrow> probability r = Fin py_0_5)
       \<and> (\<forall>f. predict_proba p = Some f \<and> f (employee_dict data) = Inr []
             \<longrightarrow> probability r = Fin py_0_5)
       \<and> (\<forall>f v rest. predict_proba p = Some f \<and> f (employee_dict data) = Inr (v # rest)
             \<longrightarrow> probability r =
                   (if 1 < length v then v ! 1
                    else if length v = 1 then v ! 0
                    else Fin py_0_5))"
proof -
  from predict_attrition_result [OF assms(1)] assms(2)
  have pr: "probability r = fst (get_probability p (employee_dict data))"
    by auto
  show ?thesis
    unfolding pr get_probability_value
    by (auto simp: proba_step_def split: list.splits)
qed

theorem probability_selection_witness:
  "fst (predict_attrition (loaded (const_pipeline (ClassInt 0) [Fin (3 / 4), Fin (1 / 4)]))
          high_risk_input)
     = Inr \<lparr>prediction = ''No'', probability = Fin (1 / 4), confidence = ''Low''\<rparr>
   \<and> pipeline (loaded (const_pipeline (ClassInt 0) [Fin (3 / 4), Fin (1 / 4)]))
       = Some (const_pipeline (ClassInt 0) [Fin (3 / 4), Fin (1 / 4)])
   \<and> probability \<lparr>prediction = ''No'', probability = Fin (1 / 4), confidence = ''Low''\<rparr>
       = [Fin (3 / 4), Fin (1 / 4)] ! 1"
proof -
  have h: "fst (predict_attrition (loaded (const_pipeline (ClassInt 0) [Fin (3 / 4), Fin (1 / 4)]))
          high_risk_input)
     = Inr \<lparr>prediction = ''No'', probability = Fin (1 / 4), confidence = ''Low''\<rparr>"
    by (simp add: predict_attrition_def predict_body_def get_probability_def proba_step_def
      loaded_def const_pipeline_def confidence_of_def py_0_8_def py_0_6_def)
  have g: "pipeline (loaded (const_pipeline (ClassInt 0) [Fin (3 / 4), Fin (1 / 4)]))
       = Some (const_pipeline (ClassInt 0) [Fin (3 / 4), Fin (1 / 4)])"
    by (simp add: loaded_def)
  from probability_selection [OF h g] h g show ?thesis
    by (simp add: const_pipeline_def)
qed

subsection \<open>The label\<close>

text \<open>
  C3. Whenever \<^verbatim>\<open>/predict\<close> returns a response, the pipeline predicted a class that
  converts to an integer, the label is "Yes" if and only if that integer is 1, and it
  is "No" for every other integer.
\<close>

theorem label_yes_iff_class_one:
  assumes "fst (predict_attrition st data) = Inr r"
  shows "\<exists>p c cs k. pipeline st = Some p
           \<and> predict p (employee_dict data) = Inr (c # cs) \<and> py_int c = Inr k
           \<and> (prediction r = ''Yes'' \<longleftrightarrow> k = 1)
           \<and> (k \<noteq> 1 \<longrightarrow> prediction r = ''No'')"
proof -
  from predict_attrition_result [OF assms] obtain p c cs k where
    "pipeline st = Some p" "predict p (employee_dict data) = Inr (c # cs)" "py_int c = Inr k"
    "prediction r = (if k = 1 then ''Yes'' else ''No'')"
    by auto
  then show ?thesis by (intro exI [of _ p] exI [of _ c] exI [of _ cs] exI [of _ k]) simp
qed

theorem label_yes_iff_class_one_witness:
  "fst (predict_attrition (loaded (const_pipeline (ClassInt 2) [Fin (1 / 4), Fin (3 / 4)]))
          high_risk_input)
     = Inr \<lparr>prediction = ''No'', probability = Fin (3 / 4), confidence = ''Medium''\<rparr>
   \<and> (\<exists>k. py_int (ClassInt 2) = Inr k \<and> k \<noteq> 1)"
proof -
  have h: "fst (predict_attrition (loaded (const_pipeline (ClassInt 2) [Fin (1 / 4), Fin (3 / 4)]))
          high_risk_input)
     = Inr \<lparr>prediction = ''No'', probability = Fin (3 / 4), confidence = ''Medium''\<rparr>"
    by (simp add: predict_attrition_def predict_body_def get_probability_def proba_step_def
      loaded_def const_pipeline_def confidence_of_def py_0_8_def py_0_6_def)
  from label_yes_iff_class_one [OF h] h show ?thesis
    by (auto simp: loaded_def const_pipeline_def)
qed

subsection \<open>The model is not loaded\<close>

text \<open>
  C4. While \<^verbatim>\<open>model_loaded\<close> is false, \<^verbatim>\<open>/predict\<close> raises the 503 error and the log
  of pipeline calls is empty: neither \<^verbatim>\<open>predict\<close> nor \<^verbatim>\<open>predict_proba\<close> is invoked.
\<close>

theorem not_loaded_is_unavailable:
  assumes "\<not> model_loaded st"
  shows "predict_attrition st data =
           (Inl (HTTPException 503 ''Model not loaded. Please check /health endpoint.''), [])"
  using assms by (simp add: predict_attrition_def)

theorem not_loaded_is_unavailable_witness:
  "\<not> model_loaded not_loaded
   \<and> status_code (projl (fst (predict_attrition not_loaded high_risk_input))) = 503
   \<and> snd (predict_attrition not_loaded high_risk_input) = []"
proof -
  have h: "\<not> model_loaded not_loaded" by (simp add: not_loaded_def)
  from not_loaded_is_unavailable [OF h, of high_risk_input] h show ?thesis by simp
qed

subsection \<open>Exceptions during prediction\<close>

text \<open>
  C5, as stated, does not hold: not every exception raised while \<^verbatim>\<open>/predict\<close> runs
  surfaces. The inner \<^verbatim>\<open>try\<close> recovers an exception of \<^verbatim>\<open>predict_proba\<close>, and the
  call returns a response.
\<close>

theorem recovered_exception_counterexample:
  "model_loaded (loaded (failing_proba_pipeline (ClassInt 0)))
   \<and> the (predict_proba (failing_proba_pipeline (ClassInt 0))) (employee_dict high_risk_input)
       = Inl (PyException ''ValueError'' ''feature names mismatch'')
   \<and> predict_attrition (loaded (failing_proba_pipeline (ClassInt 0))) high_risk_input
       = (Inr \<lparr>prediction = ''No'', probability = Fin py_0_5, confidence = ''Low''\<rparr>,
          [CallPredict (employee_dict high_risk_input),
           CallPredictProba (employee_dict high_risk_input)])"
  by (simp add: predict_attrition_def predict_body_def get_probability_def proba_step_def
      loaded_def failing_proba_pipeline_def confidence_of_def py_0_8_def py_0_6_def py_0_5_def)

text \<open>
  C5, amended. With the model loaded, an exception raised by \<^verbatim>\<open>predict\<close>, by taking
  element 0 of its result, or by the conversion of the class to an integer surfaces as a
  500 error whose detail is "Prediction error: " followed by the text of the exception.
  No response is returned, and \<^verbatim>\<open>predict\<close> is called exactly once: there is no retry.
  Exceptions raised while the probability is obtained are not among these.
\<close>

theorem prediction_exception_is_500:
  assumes "model_loaded st" and "pipeline st = Some p"
    and "predict p (employee_dict data) = Inl e
         \<or> (predict p (employee_dict data) = Inr []
             \<and> e = PyException ''IndexError''
                     ''index 0 is out of bounds for axis 0 with size 0'')
         \<or> (\<exists>c cs. predict p (employee_dict data) = Inr (c # cs) \<and> py_int c = Inl e)"
  shows "fst (predict_attrition st data)
           = Inl (HTTPException 500 (''Prediction error: '' @ exc_str e))
       \<and> filter (\<lambda>c. c = CallPredict (employee_dict data)) (snd (predict_attrition st data))
           = [CallPredict (employee_dict data)]
       \<and> length (snd (predict_attrition st data)) \<le> 2"
proof -
  let ?row = "employee_dict data"
  have len: "length (snd (get_probability p ?row)) \<le> 1"
    and nop: "filter (\<lambda>c. c = CallPredict ?row) (snd (get_probability p ?row)) = []"
    using proba_step_calls [of p ?row] by (auto simp: get_probability_calls)
  from assms(3) consider
    (a) "predict p ?row = Inl e"
    | (b) "predict p ?row = Inr []"
          "e = PyException ''IndexError'' ''index 0 is out of bounds for axis 0 with size 0''"
    | (c) c cs where "predict p ?row = Inr (c # cs)" "py_int c = Inl e"
    by blast
  then show ?thesis
  proof cases
    case a
    with assms(1,2) show ?thesis by (simp add: predict_attrition_def predict_body_def)
  next
    case b
    with assms(1,2) show ?thesis by (simp add: predict_attrition_def predict_body_def)
  next
    case c
    with assms(1,2) have
      "predict_attrition st data =
         (Inl (HTTPException 500 (''Prediction error: '' @ exc_str e)),
          CallPredict ?row # snd (get_probability p ?row))"
      by (simp add: predict_attrition_def predict_body_def split: prod.splits)
    with len nop show ?thesis by simp
  qed
qed

theorem prediction_exception_is_500_witness:
  "model_loaded (loaded failing_pipeline)
   \<and> predict failing_pipeline (employee_dict high_risk_input)
       = Inl (PyException ''ValueError'' ''feature names mismatch'')
   \<and> fst (predict_attrition (loaded failing_pipeline) high_risk_input)
       = Inl (HTTPException 500 ''Prediction error: feature names mismatch'')"
proof -
  have l: "model_loaded (loaded failing_pipeline)"
    and p: "pipeline (loaded failing_pipeline) = Some failing_pipeline"
    by (simp_all add: loaded_def)
  have r: "predict failing_pipeline (employee_dict high_risk_input)
       = Inl (PyException ''ValueError'' ''feature names mismatch'')"
    by (simp add: failing_pipeline_def)
  from prediction_exception_is_500 [OF l p disjI1, OF r] l r show ?thesis by simp
qed



subsection \<open>Range of the probability\<close>

text \<open>
  C6, as stated, does not hold of the handler alone: it passes the selected entry through
  without clamping or validating it, so a pipeline that returns an entry outside the
  interval makes the response carry it.
\<close>

theorem probability_out_of_range_counterexample:
  "fst (predict_attrition (loaded (const_pipeline (ClassInt 1) [Fin (- 1 / 2), Fin (3 / 2)]))
          high_risk_input)
     = Inr \<lparr>prediction = ''Yes'', probability = Fin (3 / 2), confidence = ''High''\<rparr>
   \<and> \<not> unit_interval (Fin (3 / 2))"
  by (simp add: predict_attrition_def predict_body_def get_probability_def proba_step_def
      loaded_def const_pipeline_def confidence_of_def py_0_8_def unit_interval_def)

text \<open>
  C6, amended. If every entry that \<^verbatim>\<open>predict_proba\<close> returns for the request lies in
  the closed interval from 0 to 1, then the probability of every response of
  \<^verbatim>\<open>/predict\<close> is a finite float in that interval (the default 0.5 included).
\<close>

theorem probability_in_unit_interval:
  assumes "fst (predict_attrition st data) = Inr r" and "pipeline st = Some p"
    and "returns_probabilities p (employee_dict data)"
  shows "\<exists>x. probability r = Fin x \<and> 0 \<le> x \<and> x \<le> 1"
proof -
  from predict_attrition_result [OF assms(1)] assms(2)
  have pr: "probability r = fst (get_probability p (employee_dict data))"
    by auto
  have "unit_interval (fst (get_probability p (employee_dict data)))"
    using assms(3)
    by (auto simp: get_probability_value proba_step_def returns_probabilities_def
        unit_interval_def py_0_5_def neq_Nil_conv split: option.splits sum.splits list.splits)
  with pr show ?thesis
    by (auto simp: unit_interval_def split: pyfloat.splits)
qed

theorem probability_in_unit_interval_witness:
  "fst (predict_attrition (loaded (const_pipeline (ClassInt 1) [Fin (1 / 4), Fin (3 / 4)]))
          high_risk_input)
     = Inr \<lparr>prediction = ''Yes'', probability = Fin (3 / 4), confidence = ''Medium''\<rparr>
   \<and> returns_probabilities (const_pipeline (ClassInt 1) [Fin (1 / 4), Fin (3 / 4)])
        (employee_dict high_risk_input)
   \<and> (\<exists>x. Fin (3 / 4) = Fin x \<and> 0 \<le> x \<and> x \<le> 1)"
proof -
  let ?p = "const_pipeline (ClassInt 1) [Fin (1 / 4), Fin (3 / 4)]"
  have h: "fst (predict_attrition (loaded ?p) high_risk_input)
     = Inr \<lparr>prediction = ''Yes'', probability = Fin (3 / 4), confidence = ''Medium''\<rparr>"
    by (simp add: predict_attrition_def predict_body_def get_probability_def proba_step_def
      loaded_def const_pipeline_def confidence_of_def py_0_8_def py_0_6_def)
  have g: "pipeline (loaded ?p) = Some ?p" by (simp add: loaded_def)
  have c: "returns_probabilities ?p (employee_dict high_risk_input)"
    by (simp add: returns_probabilities_def const_pipeline_def unit_interval_def)
  from probability_in_unit_interval [OF h g c] h c show ?thesis by simp
qed

subsection \<open>Sample data\<close>

text \<open>
  C7. \<^verbatim>\<open>GET /sample-data\<close> returns the same value in every state and after every
  sequence of earlier requests: the dict of the two literal records of the source, field
  by field, under the keys "high_risk_employee" and "low_risk_employee". It calls no
  pipeline method.
\<close>

theorem sample_data_is_constant:
  "fst (handle tb (snd (serve tb st reqs)) GetSampleData)
     = (Inr (JsonBody (PDict
          [(''high_risk_employee'', PDict
             [(''Age'', PInt 25),
              (''Gender'', PStr ''Male''),
              (''MaritalStatus'', PStr ''Single''),
              (''Department'', PStr ''Sales''),
              (''JobRole'', PStr ''Sales Representative''),
              (''JobLevel'', PInt 1),
              (''JobSatisfaction'', PInt 2),
              (''MonthlyIncome'', PFloat (Fin 2000)),
              (''DailyRate'', PFloat (Fin 100)),
              (''HourlyRate'', PFloat (Fin 12)),
              (''MonthlyRate'', PFloat (Fin 2000)),
              (''YearsAtCompany'', PInt 1),
              (''YearsInCurrentRole'', PInt 1),
              (''YearsSinceLastPromotion'', PInt 1),
              (''TotalWorkingYears'', PInt 2),
              (''YearsWithCurrManager'', PInt 1),
              (''NumCompaniesWorked'', PInt 1),
              (''PerformanceRating'', PInt 2),
              (''PercentSalaryHike'', PFloat (Fin 5)),
              (''TrainingTimesLastYear'', PInt 1),
              (''OverTime'', PStr ''Yes''),
              (''BusinessTravel'', PStr ''Travel_Frequently''),
              (''DistanceFromHome'', PInt 20),
              (''WorkLifeBalance'', PInt 2),
              (''EnvironmentSatisfaction'', PInt 2),
              (''RelationshipSatisfaction'', PInt 2),
              (''Education'', PInt 2),
              (''EducationField'', PStr ''Life Sciences''),
              (''StockOptionLevel'', PInt 0)]),
           (''low_risk_employee'', PDict
             [(''Age'', PInt 45),
              (''Gender'', PStr ''Female''),
              (''MaritalStatus'', PStr ''Married''),
              (''Department'', PStr ''Research & Development''),
              (''JobRole'', PStr ''Research Scientist''),
              (''JobLevel'', PInt 4),
              (''JobSatisfaction'', PInt 4),
              (''MonthlyIncome'', PFloat (Fin 8000)),
              (''DailyRate'', PFloat (Fin 400)),
              (''HourlyRate'', PFloat (Fin 50)),
              (''MonthlyRate'', PFloat (Fin 8000)),
              (''YearsAtCompany'', PInt 10),
              (''YearsInCurrentRole'', PInt 5),
              (''YearsSinceLastPromotion'', PInt 2),
              (''TotalWorkingYears'', PInt 15),
              (''YearsWithCurrManager'', PInt 3),
              (''NumCompaniesWorked'', PInt 2),
              (''PerformanceRating'', PInt 4),
              (''PercentSalaryHike'', PFloat (Fin 15)),
              (''TrainingTimesLastYear'', PInt 3),
              (''OverTime'', PStr ''No''),
              (''BusinessTravel'', PStr ''Travel_Rarely''),
              (''DistanceFromHome'', PInt 5),
              (''WorkLifeBalance'', PInt 4),
              (''EnvironmentSatisfaction'', PInt 4),
              (''RelationshipSatisfaction'', PInt 4),
              (''Education'', PInt 4),
              (''EducationField'', PStr ''Life Sciences''),
              (''StockOptionLevel'', PInt 2)])])), [])"
  by (simp add: get_sample_data_def high_risk_employee_def low_risk_employee_def)

subsection \<open>The model-loaded flag\<close>

text \<open>
  C8. The flag set at startup is true exactly when the artifact file exists and
  \<^verbatim>\<open>joblib.load\<close> returns; otherwise it is false and the process goes on serving.
  Serving any sequence of requests leaves the globals as startup set them, so
  \<^verbatim>\<open>GET /health\<close> reports that same flag after any number of requests.
\<close>

theorem model_loaded_fixed_at_startup:
  "model_loaded (startup env)
     = (path_exists env pipeline_path \<and> \<not> isl (joblib_load env pipeline_path))
   \<and> snd (serve tb (startup env) reqs) = startup env
   \<and> fst (handle tb (snd (serve tb (startup env) reqs)) GetHealth)
       = (Inr (HealthBody
            \<lparr>status = (if path_exists env pipeline_path \<and> \<not> isl (joblib_load env pipeline_path)
                        then ''healthy'' else ''unhealthy''),
             health_model_loaded =
               (path_exists env pipeline_path \<and> \<not> isl (joblib_load env pipeline_path)),
             message = (if path_exists env pipeline_path
                            \<and> \<not> isl (joblib_load env pipeline_path)
                        then ''Model loaded successfully'' else ''Model failed to load'')\<rparr>), [])"
proof -
  have m: "model_loaded (startup env)
     = (path_exists env pipeline_path \<and> \<not> isl (joblib_load env pipeline_path))"
    by (simp add: startup_def load_model_def split: sum.splits)
  show ?thesis
    unfolding serve_state by (simp add: health_check_def m)
qed

theorem model_loaded_fixed_at_startup_witness:
  "health_model_loaded (health_check (snd (serve (\<lambda>e. ''tb'')
      (startup \<lparr>path_exists = (\<lambda>f. False),
                joblib_load = (\<lambda>f. Inr (no_proba_pipeline (ClassInt 0)))\<rparr>)
      [PostPredict high_risk_input, GetHealth, PostTestPrediction]))) = False"
  using model_loaded_fixed_at_startup [of
      "\<lparr>path_exists = (\<lambda>f. False), joblib_load = (\<lambda>f. Inr (no_proba_pipeline (ClassInt 0)))\<rparr>"
      "\<lambda>e. ''tb''" "[PostPredict high_risk_input, GetHealth, PostTestPrediction]"]
  by (simp add: health_check_def)

subsection \<open>The test endpoint\<close>

text \<open>
  C10. With the model loaded, every exception raised inside \<^verbatim>\<open>/test-prediction\<close> while
  predicting or computing the probabilities is returned as a normal response, a dict
  with the text of the exception under "error": \<^verbatim>\<open>predict\<close> raising or returning an
  empty array, \<^verbatim>\<open>predict_proba\<close> missing, raising or returning no row, the conversion of
  the class raising, and a pipeline that is \<^verbatim>\<open>None\<close>. The endpoint raises an HTTP error
  only when the model is not loaded, and then it is the 503 error.
\<close>

theorem test_prediction_reports_errors_in_body:
  assumes "model_loaded st"
    and "(pipeline st = None
          \<and> e = PyException ''AttributeError''
                  ([CHR 0x27] @ ''NoneType'' @ [CHR 0x27] @ '' object has no attribute ''
                   @ [CHR 0x27] @ ''predict'' @ [CHR 0x27]))
         \<or> (\<exists>p. pipeline st = Some p
               \<and> (predict p test_sample_data = Inl e
                    \<or> (predict p test_sample_data = Inr []
                        \<and> e = PyException ''IndexError''
                                ''index 0 is out of bounds for axis 0 with size 0'')
                    \<or> (\<exists>c cs. predict p test_sample_data = Inr (c # cs)
                          \<and> ((predict_proba p = None
                               \<and> e = PyException ''AttributeError''
                                       ([CHR 0x27] @ class_name p @ [CHR 0x27]
                                        @ '' object has no attribute ''
                                        @ [CHR 0x27] @ ''predict_proba'' @ [CHR 0x27]))
                              \<or> (\<exists>f. predict_proba p = Some f
                                    \<and> (f test_sample_data = Inl e
                                         \<or> (f test_sample_data = Inr []
                                             \<and> e = PyException ''IndexError''
                                                 ''index 0 is out of bounds for axis 0 with size 0'')
                                         \<or> (\<exists>v rest. f test_sample_data = Inr (v # rest)
                                               \<and> py_int c = Inl e)))))))"
  shows "test_prediction tb st
           = (Inr (PDict [(''error'', PStr (exc_str e)), (''traceback'', PStr (tb e))]),
              snd (test_body (pipeline st)))
       \<and> fst (test_body (pipeline st)) = Inl e
       \<and> (\<forall>st' err. fst (test_prediction tb st') = Inl err
             \<longrightarrow> \<not> model_loaded st' \<and> err = HTTPException 503 ''Model not loaded'')
       \<and> (\<forall>st'. \<not> model_loaded st'
             \<longrightarrow> test_prediction tb st' = (Inl (HTTPException 503 ''Model not loaded''), []))"
proof -
  have r: "fst (test_body (pipeline st)) = Inl e"
    using assms(2) by (auto simp: test_body_def)
  have a: "test_prediction tb st
           = (Inr (PDict [(''error'', PStr (exc_str e)), (''traceback'', PStr (tb e))]),
              snd (test_body (pipeline st)))"
    using assms(1) r by (auto simp: test_prediction_def split: prod.splits)
  have b: "\<not> model_loaded st' \<and> err = HTTPException 503 ''Model not loaded''"
    if "fst (test_prediction tb st') = Inl err" for st' err
    using that by (auto simp: test_prediction_def split: if_splits prod.splits sum.splits)
  have c: "test_prediction tb st' = (Inl (HTTPException 503 ''Model not loaded''), [])"
    if "\<not> model_loaded st'" for st'
    using that by (simp add: test_prediction_def)
  from r a b c show ?thesis by blast
qed

theorem test_prediction_reports_errors_in_body_witness:
  "model_loaded (loaded (no_proba_pipeline (ClassInt 1)))
   \<and> predict_proba (no_proba_pipeline (ClassInt 1)) = None
   \<and> test_prediction (\<lambda>e. ''<traceback object>'') (loaded (no_proba_pipeline (ClassInt 1)))
       = (Inr (PDict [(''error'', PStr ([CHR 0x27] @ ''NoProba'' @ [CHR 0x27]
                                      @ '' object has no attribute ''
                                      @ [CHR 0x27] @ ''predict_proba'' @ [CHR 0x27])),
                      (''traceback'', PStr ''<traceback object>'')]),
          [CallPredict test_sample_data])"
proof -
  let ?p = "no_proba_pipeline (ClassInt 1)"
  let ?e = "PyException ''AttributeError''
              ([CHR 0x27] @ class_name ?p @ [CHR 0x27] @ '' object has no attribute ''
               @ [CHR 0x27] @ ''predict_proba'' @ [CHR 0x27])"
  have l: "model_loaded (loaded ?p)" by (simp add: loaded_def)
  have n: "predict_proba ?p = None" by (simp add: no_proba_pipeline_def)
  have r: "(pipeline (loaded ?p) = None
          \<and> ?e = PyException ''AttributeError''
                  ([CHR 0x27] @ ''NoneType'' @ [CHR 0x27] @ '' object has no attribute ''
                   @ [CHR 0x27] @ ''predict'' @ [CHR 0x27]))
         \<or> (\<exists>p. pipeline (loaded ?p) = Some p
               \<and> (predict p test_sample_data = Inl ?e
                    \<or> (predict p test_sample_data = Inr []
                        \<and> ?e = PyException ''IndexError''
                                ''index 0 is out of bounds for axis 0 with size 0'')
                    \<or> (\<exists>c cs. predict p test_sample_data = Inr (c # cs)
                          \<and> ((predict_proba p = None
                               \<and> ?e = PyException ''AttributeError''
                                       ([CHR 0x27] @ class_name p @ [CHR 0x27]
                                        @ '' object has no attribute ''
                                        @ [CHR 0x27] @ ''predict_proba'' @ [CHR 0x27]))
                              \<or> (\<exists>f. predict_proba p = Some f
                                    \<and> (f test_sample_data = Inl ?e
                                         \<or> (f test_sample_data = Inr []
                                             \<and> ?e = PyException ''IndexError''
                                                 ''index 0 is out of bounds for axis 0 with size 0'')
                                         \<or> (\<exists>v rest. f test_sample_data = Inr (v # rest)
                                               \<and> py_int c = Inl ?e)))))))"
    by (simp add: loaded_def no_proba_pipeline_def)
  have t: "snd (test_body (pipeline (loaded ?p))) = [CallPredict test_sample_data]"
    by (simp add: test_body_def loaded_def no_proba_pipeline_def)
  from test_prediction_reports_errors_in_body [OF l r, of "\<lambda>e. ''<traceback object>''"] l n t
  show ?thesis by (simp add: no_proba_pipeline_def)
qed

end
